theory Spec2Isabelle
  imports Main "HOL-Library.Word"
begin

unbundle bit_operations_syntax

section \<open>The allocator of mm.c\<close>

text \<open>
  The heap is a store of 64-bit words read and written at byte addresses; every access of
  mm.c is a whole \<open>word_t\<close> or a pointer of the same width, at an address that is a
  multiple of 8.  A \<open>block_t *\<close> is the address of the block's header; the union that
  follows the header puts \<open>prev\<close> at offset 8, \<open>next\<close> at offset 16 and \<open>payload\<close> at
  offset 8.  \<open>NULL\<close> is the address 0.
\<close>

type_synonym word_t = "64 word"
type_synonym addr = "64 word"

subsection \<open>Basic constants\<close>

definition wsize :: word_t where
  "wsize = 8"

definition dsize :: word_t where
  "dsize = 2 * 8"

definition min_block_size :: word_t where
  "min_block_size = 4 * 8"

definition chunksize :: word_t where
  "chunksize = push_bit 12 1"

definition alloc_mask :: word_t where
  "alloc_mask = 1"

definition prev_alloc_mask :: word_t where
  "prev_alloc_mask = 2"

definition size_mask :: word_t where
  "size_mask = NOT 15"

subsection \<open>The global state\<close>

text \<open>
  \<open>heap_start\<close> and \<open>freelist_start\<close> are the two globals of mm.c.  \<open>mem_brk\<close> and
  \<open>mem_max_addr\<close> are the state of the heap-growth primitive.
\<close>

record mstate =
  mem :: "addr \<Rightarrow> word_t"
  mem_brk :: addr
  mem_max_addr :: addr
  heap_start :: addr
  freelist_start :: addr

definition store :: "mstate \<Rightarrow> addr \<Rightarrow> word_t \<Rightarrow> mstate" where
  "store s a v = s\<lparr>mem := (mem s)(a := v)\<rparr>"

text \<open>
  Modelled from the spec: \<open>mem_sbrk\<close> of memlib.c, which is not part of the sources.  The
  spec's contract is \<open>grow(byte_count) -> base_address|failure\<close>: the region returned
  starts where the previous one ended, and a failure changes nothing.  Failure is the
  sentinel \<open>(void *)-1\<close>; the primitive fails when the request does not fit below
  \<open>mem_max_addr\<close>.
\<close>

definition mem_sbrk :: "mstate \<Rightarrow> word_t \<Rightarrow> mstate \<times> addr" where
  "mem_sbrk s incr =
     (if unat (mem_max_addr s) < unat (mem_brk s) + unat incr then (s, - 1)
      else (s\<lparr>mem_brk := mem_brk s + incr\<rparr>, mem_brk s))"

subsection \<open>Block encoding\<close>

definition mm_max :: "word_t \<Rightarrow> word_t \<Rightarrow> word_t" where
  "mm_max x y = (if x > y then x else y)"

definition round_up :: "word_t \<Rightarrow> word_t \<Rightarrow> word_t" where
  "round_up sz n = n * ((sz + (n - 1)) div n)"

definition pack :: "word_t \<Rightarrow> bool \<Rightarrow> bool \<Rightarrow> word_t" where
  "pack sz prev_alloc alloc =
     (if \<not> prev_alloc then sz OR alloc_mask
      else if \<not> alloc then sz OR prev_alloc_mask
      else if alloc \<and> prev_alloc then sz OR prev_alloc_mask OR alloc_mask
      else sz)"

definition extract_size :: "word_t \<Rightarrow> word_t" where
  "extract_size w = w AND size_mask"

definition extract_alloc :: "word_t \<Rightarrow> bool" where
  "extract_alloc w = (w AND alloc_mask \<noteq> 0)"

definition extract_prev_alloc :: "word_t \<Rightarrow> bool" where
  "extract_prev_alloc w = (w AND prev_alloc_mask \<noteq> 0)"

definition get_size :: "mstate \<Rightarrow> addr \<Rightarrow> word_t" where
  "get_size s block = extract_size (mem s block)"

definition get_alloc :: "mstate \<Rightarrow> addr \<Rightarrow> bool" where
  "get_alloc s block = extract_alloc (mem s block)"

definition get_prev_alloc :: "mstate \<Rightarrow> addr \<Rightarrow> bool" where
  "get_prev_alloc s block = extract_prev_alloc (mem s block)"

definition get_payload_size :: "mstate \<Rightarrow> addr \<Rightarrow> word_t" where
  "get_payload_size s block =
     (let asize = get_size s block
      in if get_alloc s block then asize - wsize else asize - dsize)"

text \<open>The two link fields of a free block, \<open>block->prev\<close> and \<open>block->next\<close>.\<close>

definition get_prev :: "mstate \<Rightarrow> addr \<Rightarrow> addr" where
  "get_prev s block = mem s (block + 8)"

definition get_next :: "mstate \<Rightarrow> addr \<Rightarrow> addr" where
  "get_next s block = mem s (block + 16)"

definition set_prev :: "mstate \<Rightarrow> addr \<Rightarrow> addr \<Rightarrow> mstate" where
  "set_prev s block p = store s (block + 8) p"

definition set_next :: "mstate \<Rightarrow> addr \<Rightarrow> addr \<Rightarrow> mstate" where
  "set_next s block p = store s (block + 16) p"

definition write_header :: "mstate \<Rightarrow> addr \<Rightarrow> word_t \<Rightarrow> bool \<Rightarrow> bool \<Rightarrow> mstate" where
  "write_header s block sz prev_alloc alloc = store s block (pack sz prev_alloc alloc)"

definition write_footer :: "mstate \<Rightarrow> addr \<Rightarrow> word_t \<Rightarrow> bool \<Rightarrow> bool \<Rightarrow> mstate" where
  "write_footer s block sz prev_alloc alloc =
     (let footerp = (block + 8) + get_size s block - dsize
      in store s footerp (pack sz prev_alloc alloc))"

definition find_next :: "mstate \<Rightarrow> addr \<Rightarrow> addr" where
  "find_next s block = block + get_size s block"

definition find_prev_footer :: "addr \<Rightarrow> addr" where
  "find_prev_footer block = block - 8"

definition find_prev :: "mstate \<Rightarrow> addr \<Rightarrow> addr" where
  "find_prev s block =
     (let footerp = find_prev_footer block;
          sz = extract_size (mem s footerp)
      in block - sz)"

definition set_next_prev_alloc :: "mstate \<Rightarrow> addr \<Rightarrow> bool \<Rightarrow> mstate" where
  "set_next_prev_alloc s block0 prev_alloc =
     (let block = find_next s block0;
          s1 = store s block (pack (get_size s block) prev_alloc (get_alloc s block))
      in if \<not> get_alloc s1 block
         then write_footer s1 block (get_size s1 block) prev_alloc (get_alloc s1 block)
         else s1)"

definition payload_to_header :: "addr \<Rightarrow> addr" where
  "payload_to_header bp = bp - 8"

definition header_to_payload :: "addr \<Rightarrow> addr" where
  "header_to_payload block = block + 8"

subsection \<open>The explicit free list\<close>

definition fl_remove :: "mstate \<Rightarrow> addr \<Rightarrow> mstate" where
  "fl_remove s block =
     (if block = 0 \<or> get_alloc s block then s
      else
        let nextptr = get_next s block;
            prevptr = get_prev s block;
            s1 = set_next s block 0;
            s2 = set_prev s1 block 0
        in if nextptr = 0 \<and> prevptr = 0 then s2\<lparr>freelist_start := 0\<rparr>
           else if prevptr = 0 then (set_prev s2 nextptr 0)\<lparr>freelist_start := nextptr\<rparr>
           else if nextptr = 0 then set_next s2 prevptr 0
           else set_prev (set_next s2 prevptr nextptr) nextptr prevptr)"

definition fl_insert :: "mstate \<Rightarrow> addr \<Rightarrow> mstate" where
  "fl_insert s block =
     (if block = 0 then s
      else if freelist_start s = 0 then s\<lparr>freelist_start := block\<rparr>
      else
        let s1 = set_next s block (freelist_start s);
            s2 = set_prev s1 (freelist_start s1) block
        in s2\<lparr>freelist_start := block\<rparr>)"

subsection \<open>Coalescing, heap extension and placement\<close>

definition coalesce :: "mstate \<Rightarrow> addr \<Rightarrow> mstate \<times> addr" where
  "coalesce s block =
     (let next_block = find_next s block;
          next_alloc = get_alloc s next_block;
          prev_alloc = get_prev_alloc s block;
          sz = get_size s block
      in if prev_alloc \<and> next_alloc then
           let s1 = set_next_prev_alloc s block False;
               s2 = fl_insert s1 block
           in (s2, block)
         else
           let (s3, block') =
             (if prev_alloc \<and> \<not> next_alloc then
                let s1 = fl_remove s next_block;
                    sz = sz + get_size s1 next_block;
                    s2 = write_header s1 block sz True False;
                    s3 = write_footer s2 block sz True False
                in (s3, block)
              else if \<not> prev_alloc \<and> next_alloc then
                let s1 = fl_remove s (find_prev s block);
                    sz = sz + get_size s1 (find_prev s1 block);
                    s2 = write_footer s1 block sz (get_prev_alloc s1 (find_prev s1 block)) False;
                    s3 = write_header s2 (find_prev s2 block) sz
                           (get_prev_alloc s2 (find_prev s2 block)) False
                in (s3, find_prev s3 block)
              else
                let s1 = fl_remove s next_block;
                    s2 = fl_remove s1 (find_prev s1 block);
                    sz = sz + (get_size s2 (find_prev s2 block) + get_size s2 next_block);
                    s3 = write_header s2 (find_prev s2 block) sz
                           (get_prev_alloc s2 (find_prev s2 block)) False;
                    s4 = write_footer s3 next_block sz
                           (get_prev_alloc s3 (find_prev s3 block)) False
                in (s4, find_prev s4 block));
             s4 = set_next_prev_alloc s3 block' False;
             s5 = fl_insert s4 block'
           in (s5, block'))"

definition extend_heap :: "mstate \<Rightarrow> word_t \<Rightarrow> mstate \<times> addr" where
  "extend_heap s sz0 =
     (let sz = round_up sz0 dsize;
          (s1, bp) = mem_sbrk s sz
      in if bp = - 1 then (s1, 0)
         else
           let block = payload_to_header bp;
               s2 = write_header s1 block sz (get_prev_alloc s1 block) False;
               s3 = write_footer s2 block sz (get_prev_alloc s2 block) False;
               s4 = set_next s3 block 0;
               s5 = set_prev s4 block 0;
               block_next = find_next s5 block;
               s6 = write_header s5 block_next 0 False True
           in coalesce s6 block)"

definition place :: "mstate \<Rightarrow> addr \<Rightarrow> word_t \<Rightarrow> mstate" where
  "place s block asize =
     (let csize = get_size s block;
          s1 = fl_remove s block
      in if csize - asize \<ge> min_block_size then
           let s2 = write_header s1 block asize (get_prev_alloc s1 block) True;
               block_next = find_next s2 block;
               s3 = write_header s2 block_next (csize - asize) True False;
               s4 = write_footer s3 block_next (csize - asize) True False;
               s5 = set_prev s4 block_next 0;
               s6 = set_next s5 block_next 0
           in fst (coalesce s6 block_next)
         else
           let s2 = write_header s1 block csize (get_prev_alloc s1 block) True
           in set_next_prev_alloc s2 block True)"

text \<open>
  The loop of \<open>find_fit\<close>.  It follows \<open>next\<close> pointers for as long as the list goes on,
  so it is a partial function: on a cyclic list with no exact fit and fewer than 50 larger
  blocks it does not return, which is the value \<open>None\<close>.
\<close>

partial_function (option) find_fit_loop ::
  "mstate \<Rightarrow> word_t \<Rightarrow> addr \<Rightarrow> addr \<Rightarrow> int \<Rightarrow> addr option" where
  "find_fit_loop s asize block best_fit i =
     (if block \<noteq> 0 \<and> i < 50 then
        if asize = get_size s block then Some block
        else if asize < get_size s block then
          find_fit_loop s asize (get_next s block)
            (if i = 0 then block
             else if get_size s block < get_size s best_fit then block
             else best_fit)
            (i + 1)
        else find_fit_loop s asize (get_next s block) best_fit i
      else Some best_fit)"

definition find_fit :: "mstate \<Rightarrow> word_t \<Rightarrow> addr option" where
  "find_fit s asize = find_fit_loop s asize (freelist_start s) 0 0"

subsection \<open>The public operations\<close>

definition mm_init :: "mstate \<Rightarrow> mstate \<times> bool" where
  "mm_init s =
     (let (s1, start) = mem_sbrk s (2 * wsize)
      in if start = - 1 then (s1, False)
         else
           let s2 = store s1 start (pack 0 True True);
               s3 = store s2 (start + 8) (pack 0 True True);
               s4 = s3\<lparr>heap_start := start + 8\<rparr>;
               s5 = s4\<lparr>freelist_start := 0\<rparr>;
               (s6, block) = extend_heap s5 chunksize
           in if block = 0 then (s6, False) else (s6, True))"

definition malloc :: "mstate \<Rightarrow> word_t \<Rightarrow> (mstate \<times> addr) option" where
  "malloc s0 sz =
     (let s = (if heap_start s0 = 0 then fst (mm_init s0) else s0)
      in if sz = 0 then Some (s, 0)
         else
           let asize0 = round_up (sz + wsize) dsize;
               asize = (if asize0 < min_block_size then min_block_size else asize0)
           in case find_fit s asize of
                None \<Rightarrow> None
              | Some block \<Rightarrow>
                  if block = 0 then
                    let extendsize = mm_max asize chunksize;
                        (s1, block1) = extend_heap s extendsize
                    in if block1 = 0 then Some (s1, 0)
                       else Some (place s1 block1 asize, header_to_payload block1)
                  else Some (place s block asize, header_to_payload block))"

definition free :: "mstate \<Rightarrow> addr \<Rightarrow> mstate" where
  "free s bp =
     (if bp = 0 then s
      else
        let block = payload_to_header bp;
            sz = get_size s block;
            s1 = write_header s block sz (get_prev_alloc s block) False;
            s2 = write_footer s1 block sz (get_prev_alloc s1 block) False;
            s3 = set_prev s2 block 0;
            s4 = set_next s3 block 0
        in fst (coalesce s4 block))"

text \<open>
  \<open>memcpy\<close> and \<open>memset\<close> of the C library, on the word store: whole words first, then
  the low bytes of one more word (the bytes of a word are little-endian).  Both pointers
  are multiples of 8 wherever mm.c calls them.
\<close>

definition merge_low :: "nat \<Rightarrow> word_t \<Rightarrow> word_t \<Rightarrow> word_t" where
  "merge_low r new old = (new AND mask (8 * r)) OR (old AND NOT (mask (8 * r)))"

fun copy_words :: "(addr \<Rightarrow> word_t) \<Rightarrow> addr \<Rightarrow> addr \<Rightarrow> nat \<Rightarrow> (addr \<Rightarrow> word_t)" where
  "copy_words m dst src 0 = m"
| "copy_words m dst src (Suc k) = copy_words (m(dst := m src)) (dst + 8) (src + 8) k"

fun fill_words :: "(addr \<Rightarrow> word_t) \<Rightarrow> addr \<Rightarrow> word_t \<Rightarrow> nat \<Rightarrow> (addr \<Rightarrow> word_t)" where
  "fill_words m dst v 0 = m"
| "fill_words m dst v (Suc k) = fill_words (m(dst := v)) (dst + 8) v k"

definition memcpy :: "mstate \<Rightarrow> addr \<Rightarrow> addr \<Rightarrow> word_t \<Rightarrow> mstate" where
  "memcpy s dst src n =
     (let k = unat n div 8;
          r = unat n mod 8;
          m1 = copy_words (mem s) dst src k;
          d = dst + of_nat (8 * k);
          a = src + of_nat (8 * k)
      in s\<lparr>mem := (if r = 0 then m1 else m1(d := merge_low r (m1 a) (m1 d)))\<rparr>)"

definition memset :: "mstate \<Rightarrow> addr \<Rightarrow> 8 word \<Rightarrow> word_t \<Rightarrow> mstate" where
  "memset s dst c n =
     (let v = ucast c * 0x0101010101010101;
          k = unat n div 8;
          r = unat n mod 8;
          m1 = fill_words (mem s) dst v k;
          d = dst + of_nat (8 * k)
      in s\<lparr>mem := (if r = 0 then m1 else m1(d := merge_low r v (m1 d)))\<rparr>)"

definition realloc :: "mstate \<Rightarrow> addr \<Rightarrow> word_t \<Rightarrow> (mstate \<times> addr) option" where
  "realloc s ptr sz =
     (let block = payload_to_header ptr
      in if sz = 0 then Some (free s ptr, 0)
         else if ptr = 0 then malloc s sz
         else
           case malloc s sz of
             None \<Rightarrow> None
           | Some (s1, newptr) \<Rightarrow>
               if newptr = 0 then Some (s1, 0)
               else
                 let copysize0 = get_payload_size s1 block;
                     copysize = (if sz < copysize0 then sz else copysize0);
                     s2 = memcpy s1 newptr ptr copysize
                 in Some (free s2 ptr, newptr))"

text \<open>
  \<open>calloc\<close> divides by \<open>elements\<close> before anything else is tested.  In C a division by
  zero has no defined result, so the model makes it a fault of its own.
\<close>

datatype fault = Division_By_Zero

definition calloc :: "mstate \<Rightarrow> word_t \<Rightarrow> word_t \<Rightarrow> fault + (mstate \<times> addr) option" where
  "calloc s elements sz =
     (let asize = elements * sz
      in if elements = 0 then Inl Division_By_Zero
         else if asize div elements \<noteq> sz then Inr (Some (s, 0))
         else
           Inr (case malloc s asize of
                  None \<Rightarrow> None
                | Some (s1, bp) \<Rightarrow>
                    if bp = 0 then Some (s1, 0)
                    else Some (memset s1 bp 0 asize, bp)))"

subsection \<open>The heap checker\<close>

partial_function (option) check_freelist_loop :: "mstate \<Rightarrow> addr \<Rightarrow> bool option" where
  "check_freelist_loop s b =
     (if b \<noteq> 0 \<and> get_next s b \<noteq> 0 then
        let next = get_next s b
        in if \<not> (get_next s b = next \<and> get_prev s next = b) then Some False
           else check_freelist_loop s (get_next s b)
      else Some True)"

definition check_freelist_correctly_linked :: "mstate \<Rightarrow> bool option" where
  "check_freelist_correctly_linked s = check_freelist_loop s (freelist_start s)"

text \<open>
  A process image before the first call: every global is zero (\<open>heap_start\<close> is \<open>NULL\<close>),
  the store is zeroed, and the growth primitive has the megabyte from \<open>0x1000\<close> to give out.
\<close>

definition boot :: mstate where
  "boot = \<lparr>mem = (\<lambda>_. 0), mem_brk = 0x1000, mem_max_addr = 0x101000,
           heap_start = 0, freelist_start = 0\<rparr>"

section \<open>Abstractions used by the proofs\<close>

subsection \<open>Lists in the store\<close>

text \<open>
  \<open>nlist s h xs\<close>: following \<open>next\<close> from \<open>h\<close> visits exactly the blocks \<open>xs\<close> and then
  reaches \<open>NULL\<close>.  \<open>back_linked s xs\<close>: every block of \<open>xs\<close> but the first has the block
  before it as its \<open>prev\<close>.
\<close>

fun nlist :: "mstate \<Rightarrow> addr \<Rightarrow> addr list \<Rightarrow> bool" where
  "nlist s h [] = (h = 0)"
| "nlist s h (x # xs) = (h = x \<and> x \<noteq> 0 \<and> nlist s (get_next s x) xs)"

fun back_linked :: "mstate \<Rightarrow> addr list \<Rightarrow> bool" where
  "back_linked s (x # y # ys) = (get_prev s y = x \<and> back_linked s (y # ys))"
| "back_linked s _ = True"

subsection \<open>The fit policy in the spec's words\<close>

text \<open>
  The spec's bounded best fit over a list of candidates \<open>cs\<close>: a candidate of exactly the
  requested size wins, the first such; otherwise the result is a smallest candidate of
  size at least the request, or \<open>NULL\<close> when no candidate is large enough.
\<close>

definition smallest_fit :: "mstate \<Rightarrow> word_t \<Rightarrow> addr list \<Rightarrow> addr \<Rightarrow> bool" where
  "smallest_fit s asize cs r =
     (if \<exists>c \<in> set cs. asize \<le> get_size s c
      then r \<in> set cs \<and> asize \<le> get_size s r \<and>
           (\<forall>c \<in> set cs. asize \<le> get_size s c \<longrightarrow> get_size s r \<le> get_size s c)
      else r = 0)"

definition bounded_best_fit :: "mstate \<Rightarrow> word_t \<Rightarrow> addr list \<Rightarrow> addr \<Rightarrow> bool" where
  "bounded_best_fit s asize cs r =
     (case List.find (\<lambda>b. get_size s b = asize) cs of
        Some b \<Rightarrow> r = b
      | None \<Rightarrow> smallest_fit s asize cs r)"

text \<open>What the loop of \<open>find_fit\<close> has established when it is entered with \<open>best\<close> and \<open>i\<close>.\<close>

definition fit_post :: "mstate \<Rightarrow> word_t \<Rightarrow> addr list \<Rightarrow> addr \<Rightarrow> int \<Rightarrow> addr \<Rightarrow> bool" where
  "fit_post s asize cs best i r =
     (case List.find (\<lambda>b. get_size s b = asize) cs of
        Some b \<Rightarrow> r = b
      | None \<Rightarrow>
          if i = 0 then smallest_fit s asize cs r
          else (r = best \<or> r \<in> set cs) \<and> get_size s r \<le> get_size s best \<and>
               (\<forall>c \<in> set cs. get_size s r \<le> get_size s c))"

subsection \<open>Concrete states\<close>



text \<open>A free list 32, 96 in which the second block's \<open>prev\<close> is \<open>NULL\<close> instead of 32.\<close>

definition bad_back :: mstate where
  "bad_back = boot\<lparr>mem := (\<lambda>_. 0)(48 := 96), freelist_start := 32\<rparr>"

text \<open>
  A free list of 51 blocks at 64, 128, ..., 3264.  The first 50 are FREE blocks of 32 bytes
  (header 34), the last one is a FREE block of 64 bytes (header 66); each block lies 64
  bytes after the one before, with an allocated block in between.
\<close>

definition tail_fit :: mstate where
  "tail_fit = boot\<lparr>mem := (\<lambda>a. if a = 3264 then 66 else if a = 3280 then 0
                             else if a AND 63 = 0 then 34
                             else if a AND 63 = 16 then a + 48 else 0),
                    freelist_start := 64\<rparr>"

definition tail_fit_list :: "addr list" where
  "tail_fit_list =
     [64, 128, 192, 256, 320, 384, 448, 512, 576, 640, 704, 768, 832, 896, 960, 1024, 1088,
      1152, 1216, 1280, 1344, 1408, 1472, 1536, 1600, 1664, 1728, 1792, 1856, 1920, 1984,
      2048, 2112, 2176, 2240, 2304, 2368, 2432, 2496, 2560, 2624, 2688, 2752, 2816, 2880,
      2944, 3008, 3072, 3136, 3200, 3264]"

section \<open>Block encoding: pack and the accessors\<close>

text \<open>
  C6, for every 16-byte-aligned size and every pair of booleans the accessors recover the
  packed triple: the code does not do this.  \<open>pack\<close> tests \<open>!prev_alloc\<close> first and then
  always sets the alloc bit, so a FREE block whose predecessor is FREE is packed as an
  allocated one.  At size 32 with both flags false the word is 33 and reads back as
  (32, alloc = true, prev_alloc = false).
\<close>

theorem pack_prev_free_free_reads_allocated:
  "pack 32 False False = 33 \<and>
   extract_size (pack 32 False False) = 32 \<and>
   extract_alloc (pack 32 False False) = True \<and>
   extract_prev_alloc (pack 32 False False) = False"
  by (simp add: pack_def extract_size_def extract_alloc_def extract_prev_alloc_def
      alloc_mask_def prev_alloc_mask_def size_mask_def)

section \<open>calloc\<close>

lemma back_division:
  assumes "elements \<noteq> 0" "2 ^ 64 \<le> unat elements * unat sz"
  shows "(elements * sz) div elements \<noteq> (sz :: word_t)"
proof
  assume eq: "(elements * sz) div elements = sz"
  have "unat ((elements * sz) div elements) = unat (elements * sz) div unat elements"
    by (simp add: unat_div)
  hence "unat sz = unat (elements * sz) div unat elements" using eq by simp
  hence "unat sz * unat elements \<le> unat (elements * sz)"
    by (simp add: div_times_less_eq_dividend)
  moreover have "unat (elements * sz) < 2 ^ 64"
    using unsigned_less [of "elements * sz"] by simp
  ultimately show False using assms(2) by (simp add: mult.commute)
qed

lemma unat_minus_1_word64: "unat (- 1 :: word_t) = 18446744073709551615"
  by (simp add: unsigned_minus_1_eq_mask mask_eq_exp_minus_1)

text \<open>
  C7, whenever \<open>elements\<close> is at least 1 and the product \<open>elements * sz\<close> does not fit in
  64 bits, \<open>calloc\<close> returns \<open>NULL\<close> and the whole state, the break of the heap included, is
  the one it was called in.
\<close>

theorem calloc_overflow_returns_null:
  "elements \<noteq> 0 \<Longrightarrow> 2 ^ 64 \<le> unat elements * unat sz \<Longrightarrow>
   calloc s elements sz = Inr (Some (s, 0))"
  using back_division [of elements sz] by (simp add: calloc_def Let_def)

theorem calloc_overflow_returns_null_witness:
  "(- 1 :: word_t) \<noteq> 0 \<and> 2 ^ 64 \<le> unat (- 1 :: word_t) * unat (2 :: word_t) \<and>
   calloc boot (- 1) 2 = Inr (Some (boot, 0))"
  using calloc_overflow_returns_null [of "- 1" 2 boot] by (simp add: unat_minus_1_word64)

text \<open>
  C10, with \<open>elements = 0\<close> the back-division \<open>asize/elements\<close> divides by zero whatever the
  size and the state are, before any test or allocation; with any other count the
  division is defined and \<open>calloc\<close> goes on to its overflow test.
\<close>

theorem calloc_zero_count_divides_by_zero:
  "calloc s 0 sz = Inl Division_By_Zero \<and>
   (\<forall>elements. elements \<noteq> 0 \<longrightarrow> (\<exists>r. calloc s elements sz = Inr r))"
  by (simp add: calloc_def Let_def)

theorem calloc_zero_count_divides_by_zero_witness:
  "calloc boot 0 8 = Inl Division_By_Zero \<and> (1 :: word_t) \<noteq> 0 \<and>
   (\<exists>r. calloc boot 1 8 = Inr r)"
  using calloc_zero_count_divides_by_zero [of boot 8] by simp

section \<open>The free list\<close>




section \<open>The fit search\<close>

lemma find_fit_loop_post:
  "nlist s h xs \<Longrightarrow> 0 \<le> i \<Longrightarrow> i \<le> 50 \<Longrightarrow> (i = 0 \<longrightarrow> best = 0) \<Longrightarrow>
   (0 < i \<longrightarrow> asize < get_size s best) \<Longrightarrow>
   \<exists>r. find_fit_loop s asize h best i = Some r \<and>
       fit_post s asize (take (nat (50 - i)) (filter (\<lambda>b. asize \<le> get_size s b) xs)) best i r"
proof (induction xs arbitrary: h best i)
  case Nil
  then show ?case
    by (subst find_fit_loop.simps) (simp add: fit_post_def smallest_fit_def)
next
  case (Cons x xs)
  from Cons.prems have hx: "h = x" "x \<noteq> 0" and tl: "nlist s (get_next s x) xs" by auto
  let ?F = "filter (\<lambda>b. asize \<le> get_size s b) xs"
  show ?case
  proof (cases "i < 50")
    case False
    with Cons.prems have "i = 50" by simp
    then show ?thesis
      by (subst find_fit_loop.simps) (simp add: fit_post_def)
  next
    case lt: True
    consider (exact) "asize = get_size s x" | (larger) "asize < get_size s x"
      | (smaller) "get_size s x < asize" by (meson linorder_neqE)
    then show ?thesis
    proof cases
      case exact
      from lt have "nat (50 - i) = Suc (nat (49 - i))" by simp
      with exact hx lt show ?thesis
        by (subst find_fit_loop.simps) (simp add: fit_post_def)
    next
      case smaller
      then have ne: "\<not> asize < get_size s x" "asize \<noteq> get_size s x" "\<not> asize \<le> get_size s x"
        by auto
      from Cons.IH [OF tl Cons.prems(2,3,4,5)] ne hx lt show ?thesis
        by (subst find_fit_loop.simps) simp
    next
      case larger
      then have ne: "asize \<noteq> get_size s x" "asize \<le> get_size s x" by auto
      define best' where "best' = (if i = 0 then x else if get_size s x < get_size s best then x else best)"
      have b': "asize < get_size s best'"
        using larger Cons.prems(2,5) by (auto simp: best'_def)
      have i1: "0 \<le> i + 1" "i + 1 \<le> 50" "i + 1 = 0 \<longrightarrow> best' = 0" "0 < i + 1 \<longrightarrow> asize < get_size s best'"
        using lt Cons.prems(2) b' by auto
      define C where "C = take (nat (50 - (i + 1))) ?F"
      from Cons.IH [OF tl i1] obtain r where
        r: "find_fit_loop s asize (get_next s x) best' (i + 1) = Some r"
        and post: "fit_post s asize C best' (i + 1) r" unfolding C_def by blast
      have "find_fit_loop s asize h best i = find_fit_loop s asize (get_next s x) best' (i + 1)"
        unfolding best'_def using ne hx lt larger
        by (intro trans [OF find_fit_loop.simps]) simp
      with r have step: "find_fit_loop s asize h best i = Some r" by simp
      have n: "take (nat (50 - i)) (filter (\<lambda>b. asize \<le> get_size s b) (x # xs)) = x # C"
      proof -
        have "nat (50 - i) = Suc (nat (50 - (i + 1)))" using lt by simp
        then show ?thesis using ne by (simp add: C_def)
      qed
      have sub: "\<forall>c \<in> set C. asize \<le> get_size s c"
        by (auto simp: C_def dest: in_set_takeD)
      have "fit_post s asize (x # C) best i r"
      proof (cases "List.find (\<lambda>b. get_size s b = asize) C")
        case (Some b)
        with post ne show ?thesis by (simp add: fit_post_def)
      next
        case None
        have ip: "i + 1 \<noteq> 0" using Cons.prems(2) by simp
        from post None ip have p: "(r = best' \<or> r \<in> set C)" "get_size s r \<le> get_size s best'"
          "\<forall>c \<in> set C. get_size s r \<le> get_size s c"
          by (simp_all add: fit_post_def)
        have fx: "List.find (\<lambda>b. get_size s b = asize) (x # C) = None"
          using None ne by simp
        show ?thesis
        proof (cases "i = 0")
          case True
          then have bx: "best' = x" by (simp add: best'_def)
          have "r \<in> set (x # C)" using p(1) bx by auto
          moreover have "asize \<le> get_size s r" using p(1) bx sub ne by auto
          moreover have "\<forall>c \<in> set (x # C). asize \<le> get_size s c \<longrightarrow> get_size s r \<le> get_size s c"
            using p(2,3) bx by auto
          moreover have "\<exists>c \<in> set (x # C). asize \<le> get_size s c" using ne by auto
          ultimately have "smallest_fit s asize (x # C) r"
            unfolding smallest_fit_def by simp
          then show ?thesis using True fx by (simp add: fit_post_def)
        next
          case False
          have bb: "get_size s best' \<le> get_size s best" "get_size s best' \<le> get_size s x"
            "best' = x \<or> best' = best"
            using False by (auto simp: best'_def)
          have "r = best \<or> r \<in> set (x # C)" using p(1) bb(3) by auto
          moreover have "get_size s r \<le> get_size s best" using p(2) bb(1) by simp
          moreover have "\<forall>c \<in> set (x # C). get_size s r \<le> get_size s c"
            using p(2,3) bb(2) by auto
          ultimately show ?thesis using False fx by (simp add: fit_post_def)
        qed
      qed
      with step n show ?thesis by simp
    qed
  qed
qed

text \<open>
  C4, the search examines at most 50 blocks of the free list: the code does not do this.
  The counter \<open>i\<close> is incremented only for a block strictly larger than the request, so
  blocks that are too small are passed without being counted.  In \<open>tail_fit\<close> the 50 first
  blocks are too small for 64 bytes and the 51st fits exactly: \<open>find_fit\<close> returns the
  51st, which the policy run on the 50 first blocks of the list does not.
\<close>

theorem find_fit_scans_past_50_counterexample:
  "nlist tail_fit (freelist_start tail_fit) tail_fit_list \<and>
   find_fit tail_fit 64 = Some 3264 \<and>
   \<not> bounded_best_fit tail_fit 64 (take 50 tail_fit_list) 3264"
proof -
  have "nlist tail_fit (freelist_start tail_fit) tail_fit_list"
    unfolding tail_fit_list_def by (simp add: tail_fit_def boot_def get_next_def)
  moreover have "find_fit tail_fit 64 = Some 3264"
    by (simp add: find_fit_def tail_fit_def boot_def find_fit_loop.simps get_size_def
        get_next_def extract_size_def size_mask_def)
  moreover have "\<not> bounded_best_fit tail_fit 64 (take 50 tail_fit_list) 3264"
    unfolding tail_fit_list_def
    by (simp add: bounded_best_fit_def smallest_fit_def tail_fit_def boot_def get_size_def
        extract_size_def size_mask_def)
  ultimately show ?thesis by blast
qed

text \<open>
  C4 as amended: on a free list that ends in \<open>NULL\<close>, \<open>find_fit\<close> returns, and its result is
  the bounded best fit over the first 50 blocks of the list that are at least as large
  as the request, blocks that are too small being skipped without being counted: the
  first of them of exactly the requested size if there is one, otherwise a smallest of
  them, or \<open>NULL\<close> if no block of the list is large enough.
\<close>

theorem find_fit_bounded_best_fit:
  "nlist s (freelist_start s) xs \<Longrightarrow>
   \<exists>r. find_fit s asize = Some r \<and>
       bounded_best_fit s asize (take 50 (filter (\<lambda>b. asize \<le> get_size s b) xs)) r"
  using find_fit_loop_post [of s "freelist_start s" xs 0 0 asize]
  by (auto simp: find_fit_def fit_post_def bounded_best_fit_def split: option.splits)

theorem find_fit_bounded_best_fit_witness:
  "nlist tail_fit (freelist_start tail_fit) tail_fit_list \<and>
   (\<exists>r. find_fit tail_fit 64 = Some r \<and>
       bounded_best_fit tail_fit 64
         (take 50 (filter (\<lambda>b. 64 \<le> get_size tail_fit b) tail_fit_list)) r)"
proof -
  have h: "nlist tail_fit (freelist_start tail_fit) tail_fit_list"
    unfolding tail_fit_list_def by (simp add: tail_fit_def boot_def get_next_def)
  from find_fit_bounded_best_fit [OF h] h show ?thesis by blast
qed

section \<open>The checker of the free list's links\<close>

lemma check_freelist_loop_nlist:
  "nlist s h xs \<Longrightarrow> check_freelist_loop s h = Some (back_linked s xs)"
proof (induction xs arbitrary: h)
  case Nil
  then show ?case by (simp add: check_freelist_loop.simps)
next
  case (Cons x xs)
  show ?case
  proof (cases xs)
    case Nil
    with Cons.prems show ?thesis by (simp add: check_freelist_loop.simps)
  next
    case (Cons y ys)
    with Cons.prems have nx: "get_next s x = y" "y \<noteq> 0" "h = x" "x \<noteq> 0"
      and tl: "nlist s y xs" by auto
    from Cons.IH [OF tl] have ih: "check_freelist_loop s y = Some (back_linked s xs)" .
    show ?thesis
      using nx ih Cons by (subst check_freelist_loop.simps) simp
  qed
qed

text \<open>
  C9, the check returns true for every free list, also one where some \<open>b->next->prev\<close> is
  not \<open>b\<close>: the code does not do this.  Only the first conjunct of the test, \<open>b->next == next\<close>,
  is a tautology; the second, \<open>next->prev == b\<close>, is a real test.  In \<open>bad_back\<close> the list is
  32, 96 and the \<open>prev\<close> of 96 is not 32: the check returns false.
\<close>

theorem check_freelist_rejects_bad_prev_counterexample:
  "nlist bad_back (freelist_start bad_back) [32, 96] \<and>
   get_prev bad_back (get_next bad_back 32) \<noteq> 32 \<and>
   check_freelist_correctly_linked bad_back = Some False"
  by (simp add: bad_back_def check_freelist_correctly_linked_def check_freelist_loop.simps
      get_next_def get_prev_def boot_def)

text \<open>
  C9 as amended: on a free list that ends in \<open>NULL\<close> the check returns, and it returns true
  exactly when every block of the list after the first has its predecessor in the list
  as its \<open>prev\<close>, that is when \<open>a.next == b\<close> implies \<open>b.prev == a\<close> along the whole list.
  (The \<open>prev\<close> of the head is not examined.)
\<close>

theorem check_freelist_validates_back_pointers:
  "nlist s (freelist_start s) xs \<Longrightarrow>
   check_freelist_correctly_linked s = Some (back_linked s xs)"
  by (simp add: check_freelist_correctly_linked_def check_freelist_loop_nlist)

theorem check_freelist_validates_back_pointers_witness:
  "nlist bad_back (freelist_start bad_back) [32, 96] \<and>
   check_freelist_correctly_linked bad_back = Some (back_linked bad_back [32, 96])"
proof -
  have h: "nlist bad_back (freelist_start bad_back) [32, 96]"
    by (simp add: bad_back_def get_next_def boot_def)
  from check_freelist_validates_back_pointers [OF h] h show ?thesis by blast
qed

end
